theory Spec2Isabelle
  imports Complex_Main "HOL-Library.Product_Lexorder"
begin

section \<open>Text primitives\<close>

text \<open>
  Python text is modelled as \<^typ>\<open>string\<close> holding ASCII characters, and Python floats as
  exact reals. \<open>lower\<close> is \<open>str.lower\<close> on ASCII letters.
\<close>

definition lower_char :: "char \<Rightarrow> char" where
  "lower_char c =
     (case map_of (zip ''ABCDEFGHIJKLMNOPQRSTUVWXYZ'' ''abcdefghijklmnopqrstuvwxyz'') c of
        Some d \<Rightarrow> d
      | None \<Rightarrow> c)"

definition lower :: "string \<Rightarrow> string" where
  "lower s = map lower_char s"

fun startswith :: "string \<Rightarrow> string \<Rightarrow> bool" where
  "startswith s [] = True"
| "startswith [] (p # ps) = False"
| "startswith (c # cs) (p # ps) = (c = p \<and> startswith cs ps)"

text \<open>\<open>contains w s\<close> is Python's \<open>w in s\<close> on strings.\<close>

fun contains :: "string \<Rightarrow> string \<Rightarrow> bool" where
  "contains w [] = (w = [])"
| "contains w (c # cs) = (startswith (c # cs) w \<or> contains w cs)"

text \<open>\<open>join sep xs\<close> is \<open>sep.join(xs)\<close>.\<close>

fun join :: "string \<Rightarrow> string list \<Rightarrow> string" where
  "join sep [] = []"
| "join sep [x] = x"
| "join sep (x # y # ys) = x @ sep @ join sep (y # ys)"

definition is_linebreak :: "char \<Rightarrow> bool" where
  "is_linebreak c = ((of_char c :: nat) \<in> {10, 11, 12, 13, 28, 29, 30})"

text \<open>
  \<open>splitlines_len s\<close> is \<open>len(s.splitlines())\<close>: a carriage return followed by a line
  feed is one break, and a last line needs no break.
\<close>

fun splitlines_len :: "string \<Rightarrow> nat" where
  "splitlines_len [] = 0"
| "splitlines_len [c] = 1"
| "splitlines_len (c # d # cs) =
     (if c = CHR 0x0D \<and> d = CHR 0x0A then 1 + splitlines_len cs
      else if is_linebreak c then 1 + splitlines_len (d # cs)
      else splitlines_len (d # cs))"

section \<open>Regular expressions as the patterns use them\<close>

text \<open>
  The patterns of the analyzer use literals, alternation, concatenation, an optional group,
  and repetition of a single character class only (\<open>.*\<close>, \<open>\s*\<close>, \<open>\s+\<close>, \<open>\w+\<close>,
  \<open>[^\)]*\<close>). \<open>rmatch\<close> returns every remainder of the subject after a match of the
  pattern at its start; \<open>re_search\<close> is the truth value of \<open>re.search\<close>.
\<close>

datatype cls = Dot | Space | Word | NotChar char

datatype rx = Lit string | Star cls | Plus cls | Cat rx rx | Alt rx rx | Opt rx

record re_flags =
  ignorecase :: bool
  dotall :: bool

definition flags_IS :: re_flags where
  "flags_IS = \<lparr>ignorecase = True, dotall = True\<rparr>"

definition flags_none :: re_flags where
  "flags_none = \<lparr>ignorecase = False, dotall = False\<rparr>"

definition is_space :: "char \<Rightarrow> bool" where
  "is_space c = ((of_char c :: nat) \<in> {9, 10, 11, 12, 13, 28, 29, 30, 31, 32})"

definition is_word :: "char \<Rightarrow> bool" where
  "is_word c =
     (let n = (of_char c :: nat)
      in (48 \<le> n \<and> n \<le> 57) \<or> (65 \<le> n \<and> n \<le> 90) \<or> (97 \<le> n \<and> n \<le> 122) \<or> n = 95)"

fun cls_match :: "re_flags \<Rightarrow> cls \<Rightarrow> char \<Rightarrow> bool" where
  "cls_match fl Dot c = (dotall fl \<or> c \<noteq> CHR 0x0A)"
| "cls_match fl Space c = is_space c"
| "cls_match fl Word c = is_word c"
| "cls_match fl (NotChar d) c = (c \<noteq> d)"

definition chr_match :: "re_flags \<Rightarrow> char \<Rightarrow> char \<Rightarrow> bool" where
  "chr_match fl p c = (if ignorecase fl then lower_char p = lower_char c else p = c)"

fun lit_rest :: "re_flags \<Rightarrow> string \<Rightarrow> string \<Rightarrow> string option" where
  "lit_rest fl [] s = Some s"
| "lit_rest fl (p # ps) [] = None"
| "lit_rest fl (p # ps) (c # cs) = (if chr_match fl p c then lit_rest fl ps cs else None)"

fun many_rests :: "(char \<Rightarrow> bool) \<Rightarrow> string \<Rightarrow> string list" where
  "many_rests P [] = [[]]"
| "many_rests P (c # cs) = (if P c then many_rests P cs @ [c # cs] else [c # cs])"

fun rmatch :: "re_flags \<Rightarrow> rx \<Rightarrow> string \<Rightarrow> string list" where
  "rmatch fl (Lit w) s = (case lit_rest fl w s of None \<Rightarrow> [] | Some t \<Rightarrow> [t])"
| "rmatch fl (Star k) s = many_rests (cls_match fl k) s"
| "rmatch fl (Plus k) s =
     (case s of [] \<Rightarrow> []
      | c # cs \<Rightarrow> if cls_match fl k c then many_rests (cls_match fl k) cs else [])"
| "rmatch fl (Cat a b) s = concat (map (rmatch fl b) (rmatch fl a s))"
| "rmatch fl (Alt a b) s = rmatch fl a s @ rmatch fl b s"
| "rmatch fl (Opt a) s = rmatch fl a s @ [s]"

fun re_search :: "re_flags \<Rightarrow> rx \<Rightarrow> string \<Rightarrow> bool" where
  "re_search fl r [] = (rmatch fl r [] \<noteq> [])"
| "re_search fl r (c # cs) = (rmatch fl r (c # cs) \<noteq> [] \<or> re_search fl r cs)"

fun cats :: "rx list \<Rightarrow> rx" where
  "cats [] = Lit []"
| "cats [r] = r"
| "cats (r # rs) = Cat r (cats rs)"

fun alts :: "rx list \<Rightarrow> rx" where
  "alts [] = Lit []"
| "alts [r] = r"
| "alts (r # rs) = Alt r (alts rs)"

section \<open>Request and analysis data (schemas.py, c_adapter.py)\<close>

record code_runner_payload =
  score :: real
  max_score :: real
  compile_error_text :: string
  runtime_error_text :: string
  failed_tests :: "string list"
  full_feedback_text :: string

text \<open>The field \<open>plugin_meta\<close> of the request is never read and is left out.\<close>

record hint_request =
  mode :: string
  language :: string
  course_id :: int
  quiz_id :: int
  question_id :: int
  question_slot :: int
  question_name :: string
  student_id :: string
  attempt_id :: int
  attempt_no :: int
  source_code :: string
  coderunner :: code_runner_payload

record code_features =
  uses_malloc :: bool
  uses_free :: bool
  null_check_after_malloc :: bool
  has_for_loop :: bool
  has_while_loop :: bool
  uses_array_index :: bool
  uses_pointer_deref :: bool
  uses_address_of :: bool
  line_count :: nat

record signal_bag =
  compile_patterns :: "string list"
  runtime_patterns :: "string list"
  failed_test_cues :: "string list"
  features :: code_features
  score_ratio :: real

record analysis_result =
  ar_language :: string
  ar_cluster_key :: string
  ar_hint_type :: string
  ar_confidence :: real
  signals :: signal_bag

section \<open>The C adapter (c_adapter.py)\<close>

type_synonym pattern = "rx \<times> string \<times> string \<times> real"

definition COMPILE_PATTERNS :: "pattern list" where
  "COMPILE_PATTERNS =
    [(alts [Cat (Lit ''undeclared'') (Opt (Cat (Plus Space) (Lit ''identifier''))),
            Lit ''was not declared'', Lit ''implicit declaration''],
      ''c_undeclared_identifier'', ''compile_symbol'', 0.92),
     (alts [Lit ''conflicting types for'', Lit ''incompatible type'',
            Lit ''incompatible pointer type''],
      ''c_type_mismatch'', ''types'', 0.9),
     (alts [cats [Lit ''too '', Alt (Lit ''few'') (Lit ''many''), Lit '' arguments to function''],
            cats [Lit ''passing argument '', Star Dot, Lit '' from incompatible pointer type'']],
      ''c_parameter_mismatch'', ''signature'', 0.9),
     (alts [Cat (Lit ''conflicting types for '') (Star Dot),
            cats [Lit ''previous declaration of '', Star Dot, Lit '' with type'']],
      ''c_prototype_conflict'', ''prototype'', 0.9),
     (alts [cats [Lit ''return type '', Star Dot, Lit '' is not compatible''],
            cats [Lit ''return makes '', Star Dot, Lit '' from '', Star Dot,
                  Lit '' without a cast'']],
      ''c_return_type_mismatch'', ''return_type'', 0.86),
     (alts [Lit ''subscripted value is neither array nor pointer'',
            Lit ''invalid type argument of unary *''],
      ''c_pointer_deref_misuse'', ''pointers'', 0.88),
     (alts [Lit ''free('', cats [Lit ''invalid conversion '', Star Dot, Lit ''free'']],
      ''c_free_misuse_compile'', ''memory'', 0.76),
     (Lit ''warning: unused variable'', ''c_warning_unused_variable'', ''warning_unused'', 0.55)]"

definition RUNTIME_PATTERNS :: "pattern list" where
  "RUNTIME_PATTERNS =
    [(alts [Lit ''segmentation fault'', Lit ''sigsegv''],
      ''c_segfault'', ''runtime_memory'', 0.95),
     (alts [cats [Lit ''addresssanitizer'', Star Dot, Lit ''heap-use-after-free''],
            Lit ''use-after-free''],
      ''c_use_after_free'', ''memory'', 0.98),
     (alts [cats [Lit ''addresssanitizer'', Star Dot, Lit ''double-free''], Lit ''double free''],
      ''c_double_free'', ''memory'', 0.98),
     (alts [cats [Lit ''addresssanitizer'', Star Dot, Lit ''invalid free''],
            Lit ''free(): invalid pointer''],
      ''c_invalid_free'', ''memory'', 0.97),
     (alts [Lit ''stack-buffer-overflow'', Lit ''heap-buffer-overflow'', Lit ''out of bounds''],
      ''c_out_of_bounds'', ''bounds'', 0.94),
     (alts [Lit ''null pointer'', Lit ''dereference of null'',
            cats [Lit ''addresssanitizer'', Star Dot, Lit ''null'']],
      ''c_null_dereference'', ''pointers'', 0.92)]"

definition safe_ratio :: "real \<Rightarrow> real \<Rightarrow> real" where
  "safe_ratio sc mx = (if mx \<le> 0 then 0 else max 0 (min 1 (sc / mx)))"

definition null_check_rx :: rx where
  "null_check_rx =
     Alt (cats [Lit ''if'', Star Space, Lit ''('', Star (NotChar (CHR '')'')), Lit ''=='',
                Star Space, Lit ''null''])
         (cats [Lit ''if'', Star Space, Lit ''('', Star (NotChar (CHR '')'')), Lit ''!'',
                Star Space, Plus Word, Lit '')''])"

definition extract_code_features :: "string \<Rightarrow> code_features" where
  "extract_code_features code =
     (let code_l = lower code in
      \<lparr>uses_malloc = contains ''malloc('' code_l,
       uses_free = contains ''free('' code_l,
       null_check_after_malloc = re_search flags_none null_check_rx code_l,
       has_for_loop = (contains ''for ('' code \<or> contains ''for('' code),
       has_while_loop = (contains ''while ('' code \<or> contains ''while('' code),
       uses_array_index = (contains ''['' code \<and> contains '']'' code),
       uses_pointer_deref = contains ''*'' code,
       uses_address_of = contains ''&'' code,
       line_count = splitlines_len code\<rparr>)"

definition result :: "string \<Rightarrow> string \<Rightarrow> real \<Rightarrow> signal_bag \<Rightarrow> analysis_result" where
  "result cluster ht conf sg =
     \<lparr>ar_language = ''c'', ar_cluster_key = cluster, ar_hint_type = ht, ar_confidence = conf,
      signals = sg\<rparr>"

definition any_in :: "string list \<Rightarrow> string \<Rightarrow> bool" where
  "any_in ks s = list_ex (\<lambda>k. contains k s) ks"

text \<open>Steps 3 to 5 of \<open>analyze\<close>: what runs when no pattern returned.\<close>

definition analyze_rest :: "signal_bag \<Rightarrow> string \<Rightarrow> analysis_result" where
  "analyze_rest sg failed_join =
     (if failed_join \<noteq> [] \<and> any_in [''empty'', ''vuoto'', ''n=0'', ''zero''] failed_join then
        result ''c_logic_edge_case_empty'' ''edge_case'' 0.8
          (sg\<lparr>failed_test_cues := failed_test_cues sg @ [''edge_case_empty'']\<rparr>)
      else if failed_join \<noteq> []
          \<and> any_in [''single'', ''uno'', ''1 elemento'', ''one element''] failed_join then
        result ''c_logic_edge_case_single'' ''edge_case'' 0.76
          (sg\<lparr>failed_test_cues := failed_test_cues sg @ [''edge_case_single'']\<rparr>)
      else if failed_join \<noteq> []
          \<and> any_in [''format'', ''output'', ''newline'', ''spazio'', ''space''] failed_join then
        result ''c_output_format'' ''output_format'' 0.75
          (sg\<lparr>failed_test_cues := failed_test_cues sg @ [''output_format'']\<rparr>)
      else if failed_join \<noteq> []
          \<and> any_in [''bounds'', ''index'', ''ultimo'', ''last'', ''first''] failed_join then
        result ''c_logic_bounds_off_by_one'' ''bounds'' 0.79
          (sg\<lparr>failed_test_cues := failed_test_cues sg @ [''bounds'']\<rparr>)
      else if score_ratio sg < 0.99 then
        (let feats = features sg in
         if uses_free feats \<and> \<not> null_check_after_malloc feats \<and> uses_malloc feats then
           result ''c_memory_malloc_no_null_check'' ''memory'' 0.62 sg
         else if has_for_loop feats \<and> uses_array_index feats then
           result ''c_logic_loop_bounds_generic'' ''logic_loop'' 0.58 sg
         else result ''c_logic_generic_failed_tests'' ''logic_generic'' 0.45 sg)
      else result ''c_no_hint_needed'' ''none'' 0.2 sg)"

definition first_match :: "pattern list \<Rightarrow> string \<Rightarrow> pattern option" where
  "first_match pats txt = find (\<lambda>(pat, cluster, ht, conf). re_search flags_IS pat txt) pats"

text \<open>Lines 55 to 65 of \<open>analyze\<close>: the texts it searches and the signal bag it starts from.\<close>

definition merged_compile :: "hint_request \<Rightarrow> string" where
  "merged_compile req =
     lower (compile_error_text (coderunner req) @ [CHR 0x0A] @ full_feedback_text (coderunner req))"

definition merged_runtime :: "hint_request \<Rightarrow> string" where
  "merged_runtime req =
     lower (runtime_error_text (coderunner req) @ [CHR 0x0A] @ full_feedback_text (coderunner req))"

definition failed_join :: "hint_request \<Rightarrow> string" where
  "failed_join req = lower (join [CHR 0x0A] (failed_tests (coderunner req)))"

definition initial_signals :: "hint_request \<Rightarrow> signal_bag" where
  "initial_signals req =
     \<lparr>compile_patterns = [], runtime_patterns = [], failed_test_cues = [],
      features = extract_code_features (source_code req),
      score_ratio = safe_ratio (score (coderunner req)) (max_score (coderunner req))\<rparr>"

definition analyze :: "hint_request \<Rightarrow> analysis_result" where
  "analyze req =
     (let sg = initial_signals req
      in case first_match RUNTIME_PATTERNS (merged_runtime req) of
           Some (pat, cluster, ht, conf) \<Rightarrow>
             result cluster ht conf (sg\<lparr>runtime_patterns := [cluster]\<rparr>)
         | None \<Rightarrow>
            (case first_match COMPILE_PATTERNS (merged_compile req) of
               Some (pat, cluster, ht, conf) \<Rightarrow>
                 if cluster = ''c_warning_unused_variable'' \<and> 0.99 \<le> score_ratio sg
                 then analyze_rest (sg\<lparr>compile_patterns := [cluster]\<rparr>) (failed_join req)
                 else result cluster ht conf (sg\<lparr>compile_patterns := [cluster]\<rparr>)
             | None \<Rightarrow> analyze_rest sg (failed_join req)))"


section \<open>The store (db.py)\<close>

text \<open>
  A row of table \<open>attempts\<close>, without the column \<open>created_at\<close> that the store fills from its
  clock. Columns that may be NULL are options.
\<close>

record attempt =
  att_id :: int
  att_mode :: string
  att_language :: string
  att_course_id :: "int option"
  att_quiz_id :: "int option"
  att_question_id :: "int option"
  att_question_slot :: "int option"
  att_question_name :: "string option"
  att_student_id :: string
  att_attempt_id :: "int option"
  att_attempt_no :: "int option"
  att_source_code :: "string option"
  att_source_hash :: "string option"
  att_score :: "real option"
  att_max_score :: "real option"
  att_compile_error_text :: "string option"
  att_runtime_error_text :: "string option"
  att_failed_tests_json :: "string option"
  att_full_feedback_text :: "string option"
  att_cluster_key :: "string option"
  att_hint_level :: "int option"
  att_hint_type :: "string option"
  att_hint_variant :: "string option"
  att_hint_text :: "string option"
  att_confidence :: "real option"
  improved_vs_previous :: "bool option"
  delta_score :: "real option"

text \<open>A row of table \<open>hint_stats\<close>, without its surrogate id and its timestamp.\<close>

record hint_stat =
  hs_language :: string
  hs_cluster_key :: string
  hs_hint_level :: int
  hs_hint_variant :: string
  exposures :: int
  improvements :: int
  total_delta :: real

type_synonym level_texts = "(string \<times> string) list"
type_synonym variants = "(string \<times> level_texts) list"
type_synonym entry = "(string \<times> variants) list"
type_synonym catalog = "(string \<times> entry) list"

text \<open>The calls the engine makes to the analyzer and to the store, in program order.\<close>

datatype call =
    Analyze
  | Get_last_attempt_for_context string string int int int
  | Update_attempt_improvement int bool real
  | Bump_hint_stats string string int string int int real
  | Get_hint_stats string string int
  | Insert_attempt attempt

record state =
  attempts :: "attempt list"
  hint_stats :: "hint_stat list"
  catalog_cache :: "(string \<times> catalog) list"
  calls :: "call list"

definition last_rowid :: "attempt list \<Rightarrow> int" where
  "last_rowid rows = fold (\<lambda>a m. max (att_id a) m) rows 0"

text \<open>
  \<open>insert_attempt\<close> takes the row with any \<open>att_id\<close>; the store gives it the next row id, one
  more than the largest so far (rows are never deleted).
\<close>

definition insert_attempt :: "attempt \<Rightarrow> state \<Rightarrow> int \<times> state" where
  "insert_attempt row st =
     (let new_id = last_rowid (attempts st) + 1;
          stored = row\<lparr>att_id := new_id\<rparr>
      in (new_id, st\<lparr>attempts := attempts st @ [stored],
                     calls := calls st @ [Insert_attempt stored]\<rparr>))"

definition coalesce :: "'a option \<Rightarrow> 'a \<Rightarrow> 'a" where
  "coalesce x d = (case x of None \<Rightarrow> d | Some v \<Rightarrow> v)"

definition in_context :: "string \<Rightarrow> string \<Rightarrow> int \<Rightarrow> int \<Rightarrow> int \<Rightarrow> attempt \<Rightarrow> bool" where
  "in_context sid lang quiz question slot a =
     (att_student_id a = sid \<and> att_language a = lang \<and> att_quiz_id a = Some quiz
      \<and> coalesce (att_question_id a) 0 = question \<and> coalesce (att_question_slot a) 0 = slot)"

definition newest :: "attempt list \<Rightarrow> attempt option" where
  "newest rows =
     fold (\<lambda>a best. case best of None \<Rightarrow> Some a
                     | Some b \<Rightarrow> if att_id b < att_id a then Some a else Some b) rows None"

definition get_last_attempt_for_context ::
  "string \<Rightarrow> string \<Rightarrow> int \<Rightarrow> int \<Rightarrow> int \<Rightarrow> state \<Rightarrow> attempt option \<times> state" where
  "get_last_attempt_for_context sid lang quiz question slot st =
     (newest (filter (in_context sid lang quiz question slot) (attempts st)),
      st\<lparr>calls := calls st @ [Get_last_attempt_for_context sid lang quiz question slot]\<rparr>)"

text \<open>The UPDATE of \<open>update_attempt_improvement\<close> on one row.\<close>

definition fb_update :: "int \<Rightarrow> bool \<Rightarrow> real \<Rightarrow> attempt \<Rightarrow> attempt" where
  "fb_update row_id improved delta a =
     (if att_id a = row_id
      then a\<lparr>improved_vs_previous := Some improved, delta_score := Some delta\<rparr> else a)"

definition update_attempt_improvement :: "int \<Rightarrow> bool \<Rightarrow> real \<Rightarrow> state \<Rightarrow> state" where
  "update_attempt_improvement row_id improved delta st =
     st\<lparr>attempts := map (fb_update row_id improved delta) (attempts st),
        calls := calls st @ [Update_attempt_improvement row_id improved delta]\<rparr>"

definition has_key :: "string \<Rightarrow> string \<Rightarrow> int \<Rightarrow> string \<Rightarrow> hint_stat \<Rightarrow> bool" where
  "has_key lang cluster level variant r =
     (hs_language r = lang \<and> hs_cluster_key r = cluster \<and> hs_hint_level r = level
      \<and> hs_hint_variant r = variant)"

definition bump_hint_stats ::
  "string \<Rightarrow> string \<Rightarrow> int \<Rightarrow> string \<Rightarrow> int \<Rightarrow> int \<Rightarrow> real \<Rightarrow> state \<Rightarrow> state" where
  "bump_hint_stats lang cluster level variant exposure_inc improvement_inc delta_inc st =
     st\<lparr>hint_stats :=
          (if list_ex (has_key lang cluster level variant) (hint_stats st)
           then map (\<lambda>r. if has_key lang cluster level variant r
                          then r\<lparr>exposures := exposures r + exposure_inc,
                                 improvements := improvements r + improvement_inc,
                                 total_delta := total_delta r + delta_inc\<rparr>
                          else r) (hint_stats st)
           else hint_stats st @
                [\<lparr>hs_language = lang, hs_cluster_key = cluster, hs_hint_level = level,
                  hs_hint_variant = variant, exposures = exposure_inc,
                  improvements = improvement_inc, total_delta = delta_inc\<rparr>]),
        calls := calls st @
          [Bump_hint_stats lang cluster level variant exposure_inc improvement_inc delta_inc]\<rparr>"

text \<open>
  The key of a statistics row, unique in the table, and the row of a key.
\<close>

definition stat_key :: "hint_stat \<Rightarrow> string \<times> string \<times> int \<times> string" where
  "stat_key r = (hs_language r, hs_cluster_key r, hs_hint_level r, hs_hint_variant r)"


text \<open>The rows come ordered by exposures, improvements and total delta, largest first.\<close>

definition get_hint_stats :: "string \<Rightarrow> string \<Rightarrow> int \<Rightarrow> state \<Rightarrow> hint_stat list \<times> state" where
  "get_hint_stats lang cluster level st =
     (rev (sort_key (\<lambda>r. (exposures r, improvements r, total_delta r))
            (filter (\<lambda>r. hs_language r = lang \<and> hs_cluster_key r = cluster
                          \<and> hs_hint_level r = level) (hint_stats st))),
      st\<lparr>calls := calls st @ [Get_hint_stats lang cluster level]\<rparr>)"

section \<open>The hint engine (hint_engine.py)\<close>

record hint_response =
  enabled :: bool
  hint_level :: int
  hint_type :: string
  cluster_key :: string
  hint_text :: string
  confidence :: real
  hint_variant :: string
  learning :: "(bool \<times> real) option"

text \<open>
  What the engine takes from outside the repository: the parsed catalog file of a language
  (\<open>None\<close> when the file does not exist), the first 16 hexadecimal digits of SHA-256, and
  \<open>json.dumps\<close> on a list of strings.
\<close>

record env =
  catalog_files :: "string \<Rightarrow> catalog option"
  sha256_hex16 :: "string \<Rightarrow> string"
  json_dumps :: "string list \<Rightarrow> string"

text \<open>
  The randomness one request consumes: the value of \<open>random.random()\<close> and the index that
  \<open>random.choice\<close> draws.
\<close>

record rng =
  random_draw :: real
  choice_index :: nat

definition choice :: "rng \<Rightarrow> 'a list \<Rightarrow> 'a" where
  "choice g xs = xs ! (choice_index g mod length xs)"

definition epsilon :: real where
  "epsilon = 0.15"

definition GENERIC :: string where
  "GENERIC = ''c_logic_generic_failed_tests''"

definition FALLBACK_TEXT :: string where
  "FALLBACK_TEXT = ''Controlla il primo test che fallisce e ripercorri il flusso con un input piccolo, concentrandoti su casi limite e gestione della memoria.''"

definition UNSUPPORTED_TEXT :: string where
  "UNSUPPORTED_TEXT = ''MVP attivo soprattutto per C. Per questo linguaggio posso dare solo un indizio generico: riparti dal primo test che fallisce e controlla casi limite e formato output.''"

text \<open>Python's \<open>x or d\<close>: on a possibly missing list or string, and on a possibly missing number.\<close>

definition or_else :: "'a list option \<Rightarrow> 'a list \<Rightarrow> 'a list" where
  "or_else x d = (case x of None \<Rightarrow> d | Some v \<Rightarrow> if v = [] then d else v)"

definition or_num :: "'a::zero option \<Rightarrow> 'a \<Rightarrow> 'a" where
  "or_num x d = (case x of None \<Rightarrow> d | Some v \<Rightarrow> if v = 0 then d else v)"

definition truthy_str :: "string option \<Rightarrow> bool" where
  "truthy_str x = (case x of None \<Rightarrow> False | Some v \<Rightarrow> v \<noteq> [])"

definition truthy_int :: "int option \<Rightarrow> bool" where
  "truthy_int x = (case x of None \<Rightarrow> False | Some v \<Rightarrow> v \<noteq> 0)"

text \<open>\<open>round(x, n)\<close>: to \<open>n\<close> decimals, a tie going to the even neighbour.\<close>

definition py_round :: "real \<Rightarrow> nat \<Rightarrow> real" where
  "py_round x n =
     (let y = x * 10 ^ n; f = \<lfloor>y\<rfloor>; d = y - of_int f
      in of_int (if d < 1 / 2 then f else if 1 / 2 < d then f + 1
                 else if even f then f else f + 1) / 10 ^ n)"

text \<open>\<open>str\<close> on an integer.\<close>

fun str_nat :: "nat \<Rightarrow> string" where
  "str_nat n =
     (if n < 10 then [''0123456789'' ! n] else str_nat (n div 10) @ [''0123456789'' ! (n mod 10)])"

declare str_nat.simps [simp del]

definition str_int :: "int \<Rightarrow> string" where
  "str_int i = (if i < 0 then CHR ''-'' # str_nat (nat (- i)) else str_nat (nat i))"

definition decide_level :: "attempt option \<Rightarrow> int" where
  "decide_level previous =
     (case previous of
        None \<Rightarrow> 1
      | Some p \<Rightarrow>
          (let prevratio =
                 (if 0 < or_num (att_max_score p) 0
                  then or_num (att_score p) 0 / or_num (att_max_score p) 1 else 0)
           in if 0.999 \<le> prevratio then 1
              else (let prevlevel = or_num (att_hint_level p) 1
                    in min 3 (max 1 (prevlevel + 1)))))"

definition load_catalog :: "env \<Rightarrow> string \<Rightarrow> state \<Rightarrow> catalog \<times> state" where
  "load_catalog ev lang st =
     (case map_of (catalog_cache st) lang of
        Some c \<Rightarrow> (c, st)
      | None \<Rightarrow>
          (case catalog_files ev lang of
             None \<Rightarrow> ([], st\<lparr>catalog_cache := (lang, []) # catalog_cache st\<rparr>)
           | Some c \<Rightarrow> (c, st\<lparr>catalog_cache := (lang, c) # catalog_cache st\<rparr>)))"

text \<open>The score of one statistics row, lines 170 to 175.\<close>

definition variant_score :: "hint_stat \<Rightarrow> real" where
  "variant_score row =
     (let exp = exposures row; imp = improvements row; total = total_delta row;
          rate = (of_int imp + 1) / (of_int exp + 2)
      in rate + 0.05 * total / max 1 (of_int exp))"

definition score_by_variant :: "hint_stat list \<Rightarrow> string \<Rightarrow> real option" where
  "score_by_variant stats =
     fold (\<lambda>row m. m(hs_hint_variant row \<mapsto> variant_score row)) stats Map.empty"

text \<open>
  \<open>sorted(xs, key=k, reverse=True)\<close>: a stable sort, largest key first, equal keys in the
  order of \<open>xs\<close>.
\<close>

definition sorted_reverse :: "('a \<Rightarrow> real) \<Rightarrow> 'a list \<Rightarrow> 'a list" where
  "sorted_reverse k xs = sort_key (\<lambda>x. - k x) xs"

definition catalog_variants :: "catalog \<Rightarrow> string \<Rightarrow> string list" where
  "catalog_variants cat ck =
     (let entry = or_else (map_of cat ck) (or_else (map_of cat GENERIC) []);
          ks = map fst (or_else (map_of entry ''variants'') [])
      in if ks = [] then [''default''] else ks)"

definition choose_variant ::
  "rng \<Rightarrow> string \<Rightarrow> string \<Rightarrow> int \<Rightarrow> catalog \<Rightarrow> state \<Rightarrow> string \<times> state" where
  "choose_variant g lang ck level cat st =
     (let vs = catalog_variants cat ck
      in if length vs = 1 then (hd vs, st)
         else if random_draw g < epsilon then (choice g vs, st)
         else (case get_hint_stats lang ck level st of
                 (stats, st1) \<Rightarrow>
                   (let sbv = score_by_variant stats;
                        unseen = filter (\<lambda>v. sbv v = None) vs
                    in if unseen \<noteq> [] then (choice g unseen, st1)
                       else (hd (sorted_reverse (\<lambda>v. coalesce (sbv v) 0) vs), st1))))"


text \<open>\<open>chosen.get(str(level))\<close>, a missing key read as the empty text (both are falsy).\<close>

definition text_at :: "level_texts \<Rightarrow> int \<Rightarrow> string" where
  "text_at chosen l = coalesce (map_of chosen (str_int l)) []"

text \<open>Lines 186 to 189: the texts of the variant that \<open>resolve_hint_text\<close> reads.\<close>

definition chosen_texts :: "catalog \<Rightarrow> string \<Rightarrow> string \<Rightarrow> level_texts" where
  "chosen_texts cat ck variant =
     (let fallback = coalesce (map_of cat GENERIC) [];
          entry = coalesce (map_of cat ck) fallback;
          vars = coalesce (map_of entry ''variants'') []
      in or_else (map_of vars variant) (if vars \<noteq> [] then snd (hd vars) else []))"

text \<open>The loop over \<open>range(hint_level, 0, -1)\<close>: the first level, going down, with a text.\<close>

function search_down :: "level_texts \<Rightarrow> int \<Rightarrow> string option" where
  "search_down chosen level =
     (if level \<le> 0 then None
      else if text_at chosen level \<noteq> [] then Some (text_at chosen level)
      else search_down chosen (level - 1))"
  by pat_completeness auto
termination
  by (relation "measure (\<lambda>(chosen, level). nat level)") auto

declare search_down.simps [simp del]

definition resolve_hint_text :: "catalog \<Rightarrow> string \<Rightarrow> int \<Rightarrow> string \<Rightarrow> string" where
  "resolve_hint_text cat ck level variant =
     (let chosen = chosen_texts cat ck variant
      in if chosen = [] then FALLBACK_TEXT
         else if text_at chosen level \<noteq> [] then text_at chosen level
         else (case search_down chosen level of
                 Some txt \<Rightarrow> txt
               | None \<Rightarrow> FALLBACK_TEXT))"

text \<open>
  Lines 54 to 74 of \<open>handle_hint\<close>: what the engine learns from the previous attempt. The
  result is the \<open>learning\<close> field of the response and the new state.
\<close>

definition record_feedback ::
  "hint_request \<Rightarrow> attempt option \<Rightarrow> state \<Rightarrow> (bool \<times> real) option \<times> state" where
  "record_feedback req previous st =
     (case previous of
        None \<Rightarrow> (None, st)
      | Some p \<Rightarrow>
          if truthy_str (att_hint_variant p) \<and> truthy_int (att_hint_level p) then
            (let prevscore = or_num (att_score p) 0;
                 currscore = score (coderunner req);
                 delta = currscore - prevscore;
                 improved = (1 / 10 ^ 9 < delta);
                 st1 = update_attempt_improvement (att_id p) improved delta st;
                 st2 = bump_hint_stats (att_language p) (or_else (att_cluster_key p) ''unknown'')
                         (or_num (att_hint_level p) 1) (or_else (att_hint_variant p) ''default'')
                         0 (if improved then 1 else 0) delta st1
             in (Some (improved, py_round delta 4), st2))
          else (None, st))"

definition new_attempt ::
  "env \<Rightarrow> hint_request \<Rightarrow> string \<Rightarrow> analysis_result \<Rightarrow> int \<Rightarrow> string \<Rightarrow> string \<Rightarrow> attempt" where
  "new_attempt ev req lang analysis level variant txt =
     \<lparr>att_id = 0,
      att_mode = mode req,
      att_language = lang,
      att_course_id = Some (course_id req),
      att_quiz_id = Some (quiz_id req),
      att_question_id = Some (question_id req),
      att_question_slot = Some (question_slot req),
      att_question_name = Some (question_name req),
      att_student_id = student_id req,
      att_attempt_id = Some (attempt_id req),
      att_attempt_no = Some (attempt_no req),
      att_source_code = Some (source_code req),
      att_source_hash = Some (sha256_hex16 ev (source_code req)),
      att_score = Some (score (coderunner req)),
      att_max_score = Some (max_score (coderunner req)),
      att_compile_error_text = Some (compile_error_text (coderunner req)),
      att_runtime_error_text = Some (runtime_error_text (coderunner req)),
      att_failed_tests_json = Some (json_dumps ev (failed_tests (coderunner req))),
      att_full_feedback_text = Some (full_feedback_text (coderunner req)),
      att_cluster_key = Some (ar_cluster_key analysis),
      att_hint_level = Some level,
      att_hint_type = Some (ar_hint_type analysis),
      att_hint_variant = Some variant,
      att_hint_text = Some txt,
      att_confidence = Some (ar_confidence analysis),
      improved_vs_previous = None,
      delta_score = None\<rparr>"

definition handle_hint ::
  "env \<Rightarrow> rng \<Rightarrow> hint_request \<Rightarrow> state \<Rightarrow> hint_response \<times> state" where
  "handle_hint ev g req st =
     (if mode req \<noteq> ''training'' then
        (\<lparr>enabled = False, hint_level = 1, hint_type = ''generic'', cluster_key = ''c_generic'',
          hint_text = ''Hints disabled (exam mode).'', confidence = 0, hint_variant = ''default'',
          learning = None\<rparr>, st)
      else
        (let lang = lower (or_else (Some (language req)) ''c'') in
         if lang \<noteq> ''c'' then
           (\<lparr>enabled = True, hint_level = 1, hint_type = ''generic'',
             cluster_key = lang @ ''_unsupported_mvp'', hint_text = UNSUPPORTED_TEXT,
             confidence = 0.25, hint_variant = ''default'', learning = None\<rparr>, st)
         else
           (let analysis = analyze req;
                st0 = st\<lparr>calls := calls st @ [Analyze]\<rparr>
            in case get_last_attempt_for_context (student_id req) lang (quiz_id req)
                      (question_id req) (question_slot req) st0 of
                 (previous, st1) \<Rightarrow>
            (case record_feedback req previous st1 of
                 (learning_info, st2) \<Rightarrow>
            (let level = decide_level previous
             in case load_catalog ev lang st2 of
                 (cat, st3) \<Rightarrow>
            (case choose_variant g lang (ar_cluster_key analysis) level cat st3 of
                 (variant, st4) \<Rightarrow>
            (let txt = resolve_hint_text cat (ar_cluster_key analysis) level variant;
                 st5 = bump_hint_stats lang (ar_cluster_key analysis) level variant 1 0 0 st4
             in case insert_attempt (new_attempt ev req lang analysis level variant txt) st5 of
                 (row_id, st6) \<Rightarrow>
                   (\<lparr>enabled = True, hint_level = level, hint_type = ar_hint_type analysis,
                     cluster_key = ar_cluster_key analysis, hint_text = txt,
                     confidence = py_round (ar_confidence analysis) 3, hint_variant = variant,
                     learning = learning_info\<rparr>, st6))))))))"

text \<open>
  Reading the journal of calls: the insert of an attempt, the bump of an exposure (the bump
  with exposure increment 1), and "a call with \<open>P\<close> comes before a call with \<open>Q\<close>".
\<close>

definition is_insert :: "call \<Rightarrow> bool" where
  "is_insert c = (case c of Insert_attempt row \<Rightarrow> True | _ \<Rightarrow> False)"

definition is_exposure_bump :: "call \<Rightarrow> bool" where
  "is_exposure_bump c =
     (case c of Bump_hint_stats lang ck level variant e i d \<Rightarrow> e = 1 | _ \<Rightarrow> False)"

definition happens_before :: "(call \<Rightarrow> bool) \<Rightarrow> (call \<Rightarrow> bool) \<Rightarrow> call list \<Rightarrow> bool" where
  "happens_before P Q cs =
     (case dropWhile (\<lambda>c. \<not> P c) cs of [] \<Rightarrow> False | c # rest \<Rightarrow> list_ex Q rest)"

text \<open>The calls that one request adds to the journal.\<close>

definition new_calls :: "state \<Rightarrow> state \<Rightarrow> call list" where
  "new_calls st st' = drop (length (calls st)) (calls st')"

section \<open>Concrete inputs\<close>

definition cr0 :: code_runner_payload where
  "cr0 = \<lparr>score = 0, max_score = 10, compile_error_text = [], runtime_error_text = [],
          failed_tests = [], full_feedback_text = []\<rparr>"

definition req0 :: hint_request where
  "req0 = \<lparr>mode = ''training'', language = ''c'', course_id = 0, quiz_id = 0, question_id = 0,
           question_slot = 0, question_name = [], student_id = ''anon'', attempt_id = 0,
           attempt_no = 0, source_code = [], coderunner = cr0\<rparr>"

definition ev0 :: env where
  "ev0 = \<lparr>catalog_files = (\<lambda>l. None), sha256_hex16 = (\<lambda>s. ''e3b0c44298fc1c14''),
          json_dumps = (\<lambda>xs. ''[]'')\<rparr>"

definition g0 :: rng where
  "g0 = \<lparr>random_draw = 0.5, choice_index = 0\<rparr>"

definition st0 :: state where
  "st0 = \<lparr>attempts = [], hint_stats = [], catalog_cache = [], calls = []\<rparr>"

definition att0 :: attempt where
  "att0 = new_attempt ev0 req0 ''c'' (analyze req0) 1 ''default'' FALLBACK_TEXT"

definition cat1 :: catalog where
  "cat1 = [(''c_segfault'',
            [(''variants'', [(''socratic'', [(''1'', ''Where does the pointer come from?'')])])])]"


definition req_both :: hint_request where
  "req_both = req0\<lparr>coderunner := cr0\<lparr>
      runtime_error_text := ''Segmentation fault; heap-use-after-free'',
      compile_error_text := ''error: x undeclared''\<rparr>\<rparr>"

definition req_uaf :: hint_request where
  "req_uaf = req0\<lparr>coderunner := cr0\<lparr>
      runtime_error_text := ''ERROR: AddressSanitizer: heap-use-after-free'',
      compile_error_text := ''error: x undeclared''\<rparr>\<rparr>"

definition req_warn :: "real \<Rightarrow> real \<Rightarrow> hint_request" where
  "req_warn sc mx = req0\<lparr>coderunner := cr0\<lparr>score := sc, max_score := mx,
      compile_error_text := ''warning: unused variable''\<rparr>\<rparr>"


definition cat2 :: catalog where
  "cat2 = [(''c_segfault'',
            [(''variants'',
              [(''B'', [(''1'', ''Run it under a debugger.'')]),
               (''A'', [(''1'', ''Which pointer is read?''),
                        (''2'', ''Check the index before the read.'')])])])]"





definition req_same :: hint_request where
  "req_same = req0\<lparr>coderunner := cr0\<lparr>score := 0\<rparr>\<rparr>"


section \<open>Level progression\<close>






section \<open>Variant selection\<close>

text \<open>
  C7: when the resolved catalog entry has exactly one variant, \<open>choose_variant\<close> returns it
  and leaves the state alone, so two calls that differ in the random draw, the random index
  and the stored statistics return the same variant.
\<close>

theorem single_variant_ignores_draw:
  "length (catalog_variants cat ck) = 1 \<Longrightarrow>
     choose_variant g lang ck level cat st = (hd (catalog_variants cat ck), st)
     \<and> fst (choose_variant g lang ck level cat st) = fst (choose_variant g' lang ck level cat st')"
  by (simp add: choose_variant_def Let_def)

theorem single_variant_ignores_draw_witness:
  "length (catalog_variants cat1 ''c_segfault'') = 1
   \<and> fst (choose_variant \<lparr>random_draw = 0, choice_index = 5\<rparr> ''c'' ''c_segfault'' 1 cat1 st0)
       = ''socratic''
   \<and> fst (choose_variant \<lparr>random_draw = 0.9, choice_index = 0\<rparr> ''c'' ''c_segfault'' 1 cat1 st0)
       = ''socratic''"
proof -
  have h: "length (catalog_variants cat1 ''c_segfault'') = 1"
    by (simp add: catalog_variants_def cat1_def or_else_def)
  have v: "hd (catalog_variants cat1 ''c_segfault'') = ''socratic''"
    by (simp add: catalog_variants_def cat1_def or_else_def)
  show ?thesis
    using h v
      single_variant_ignores_draw
        [OF h, of "\<lparr>random_draw = 0, choice_index = 5\<rparr>" "''c''" 1 st0]
      single_variant_ignores_draw
        [OF h, of "\<lparr>random_draw = 0.9, choice_index = 0\<rparr>" "''c''" 1 st0]
    by simp
qed

section \<open>The request handler\<close>

text \<open>
  C8: a request whose mode is not "training" gets a response with \<open>enabled = False\<close>, and the
  state after it is the state before it: no attempt inserted, read or changed, no statistics
  row changed, and no call to the analyzer or to the store.
\<close>

theorem exam_mode_no_effect:
  "mode req \<noteq> ''training'' \<Longrightarrow>
     enabled (fst (handle_hint ev g req st)) = False
     \<and> snd (handle_hint ev g req st) = st
     \<and> attempts (snd (handle_hint ev g req st)) = attempts st
     \<and> hint_stats (snd (handle_hint ev g req st)) = hint_stats st
     \<and> calls (snd (handle_hint ev g req st)) = calls st"
  by (simp add: handle_hint_def)

theorem exam_mode_no_effect_witness:
  "mode (req0\<lparr>mode := ''exam''\<rparr>) \<noteq> ''training''
   \<and> enabled (fst (handle_hint ev0 g0 (req0\<lparr>mode := ''exam''\<rparr>) st0)) = False
   \<and> snd (handle_hint ev0 g0 (req0\<lparr>mode := ''exam''\<rparr>) st0) = st0"
  using exam_mode_no_effect [of "req0\<lparr>mode := ''exam''\<rparr>" ev0 g0 st0]
  by (simp add: req0_def)

section \<open>The classifier\<close>

lemma first_match_mem: "first_match pats t = Some p \<Longrightarrow> p \<in> set pats"
  by (induction pats) (auto simp add: first_match_def split: if_splits)

lemma first_match_None:
  "first_match pats t = None \<longleftrightarrow> (\<forall>p \<in> set pats. \<not> re_search flags_IS (fst p) t)"
  by (induction pats) (auto simp add: first_match_def)

lemma runtime_rows:
  "(pat, cluster, ht, conf) \<in> set RUNTIME_PATTERNS \<Longrightarrow>
     (cluster, ht, conf) \<in> {(''c_segfault'', ''runtime_memory'', 0.95),
        (''c_use_after_free'', ''memory'', 0.98), (''c_double_free'', ''memory'', 0.98),
        (''c_invalid_free'', ''memory'', 0.97), (''c_out_of_bounds'', ''bounds'', 0.94),
        (''c_null_dereference'', ''pointers'', 0.92)}"
  unfolding RUNTIME_PATTERNS_def by auto

lemma compile_rows:
  "(pat, cluster, ht, conf) \<in> set COMPILE_PATTERNS \<Longrightarrow>
     (cluster, ht, conf) \<in> {(''c_undeclared_identifier'', ''compile_symbol'', 0.92),
        (''c_type_mismatch'', ''types'', 0.9), (''c_parameter_mismatch'', ''signature'', 0.9),
        (''c_prototype_conflict'', ''prototype'', 0.9),
        (''c_return_type_mismatch'', ''return_type'', 0.86),
        (''c_pointer_deref_misuse'', ''pointers'', 0.88),
        (''c_free_misuse_compile'', ''memory'', 0.76),
        (''c_warning_unused_variable'', ''warning_unused'', 0.55)}"
  unfolding COMPILE_PATTERNS_def by auto

lemma analyze_rest_rows:
  "ar_language (analyze_rest sg fj) = ''c''
   \<and> (ar_cluster_key (analyze_rest sg fj), ar_hint_type (analyze_rest sg fj),
       ar_confidence (analyze_rest sg fj))
     \<in> {(''c_logic_edge_case_empty'', ''edge_case'', 0.8),
        (''c_logic_edge_case_single'', ''edge_case'', 0.76),
        (''c_output_format'', ''output_format'', 0.75),
        (''c_logic_bounds_off_by_one'', ''bounds'', 0.79),
        (''c_memory_malloc_no_null_check'', ''memory'', 0.62),
        (''c_logic_loop_bounds_generic'', ''logic_loop'', 0.58),
        (''c_logic_generic_failed_tests'', ''logic_generic'', 0.45),
        (''c_no_hint_needed'', ''none'', 0.2)}"
  by (simp add: analyze_rest_def result_def Let_def)

lemma analyze_runtime:
  "first_match RUNTIME_PATTERNS (merged_runtime req) = Some (pat, cluster, ht, conf) \<Longrightarrow>
     analyze req = result cluster ht conf ((initial_signals req)\<lparr>runtime_patterns := [cluster]\<rparr>)"
  by (simp add: analyze_def Let_def)

lemma analyze_compile:
  "first_match RUNTIME_PATTERNS (merged_runtime req) = None \<Longrightarrow>
   first_match COMPILE_PATTERNS (merged_compile req) = Some (pat, cluster, ht, conf) \<Longrightarrow>
     analyze req =
       (if cluster = ''c_warning_unused_variable'' \<and> 0.99 \<le> score_ratio (initial_signals req)
        then analyze_rest ((initial_signals req)\<lparr>compile_patterns := [cluster]\<rparr>) (failed_join req)
        else result cluster ht conf ((initial_signals req)\<lparr>compile_patterns := [cluster]\<rparr>))"
  by (simp add: analyze_def Let_def)

lemma analyze_none:
  "first_match RUNTIME_PATTERNS (merged_runtime req) = None \<Longrightarrow>
   first_match COMPILE_PATTERNS (merged_compile req) = None \<Longrightarrow>
     analyze req = analyze_rest (initial_signals req) (failed_join req)"
  by (simp add: analyze_def Let_def)

text \<open>The three ways \<open>analyze\<close> ends.\<close>

lemma analyze_cases:
  obtains (runtime) pat cluster ht conf where
      "first_match RUNTIME_PATTERNS (merged_runtime req) = Some (pat, cluster, ht, conf)"
      "(cluster, ht, conf) \<in> {(''c_segfault'', ''runtime_memory'', 0.95),
        (''c_use_after_free'', ''memory'', 0.98), (''c_double_free'', ''memory'', 0.98),
        (''c_invalid_free'', ''memory'', 0.97), (''c_out_of_bounds'', ''bounds'', 0.94),
        (''c_null_dereference'', ''pointers'', 0.92)}"
      "ar_language (analyze req) = ''c''" "ar_cluster_key (analyze req) = cluster"
      "ar_hint_type (analyze req) = ht" "ar_confidence (analyze req) = conf"
  | (compile) pat cluster ht conf where
      "first_match RUNTIME_PATTERNS (merged_runtime req) = None"
      "first_match COMPILE_PATTERNS (merged_compile req) = Some (pat, cluster, ht, conf)"
      "(cluster, ht, conf) \<in> {(''c_undeclared_identifier'', ''compile_symbol'', 0.92),
        (''c_type_mismatch'', ''types'', 0.9), (''c_parameter_mismatch'', ''signature'', 0.9),
        (''c_prototype_conflict'', ''prototype'', 0.9),
        (''c_return_type_mismatch'', ''return_type'', 0.86),
        (''c_pointer_deref_misuse'', ''pointers'', 0.88),
        (''c_free_misuse_compile'', ''memory'', 0.76),
        (''c_warning_unused_variable'', ''warning_unused'', 0.55)}"
      "ar_language (analyze req) = ''c''" "ar_cluster_key (analyze req) = cluster"
      "ar_hint_type (analyze req) = ht" "ar_confidence (analyze req) = conf"
  | (rest) sg where
      "first_match RUNTIME_PATTERNS (merged_runtime req) = None"
      "analyze req = analyze_rest sg (failed_join req)"
proof (cases "first_match RUNTIME_PATTERNS (merged_runtime req)")
  case (Some p)
  obtain pat cluster ht conf where p: "p = (pat, cluster, ht, conf)"
    by (cases p) auto
  have fm: "first_match RUNTIME_PATTERNS (merged_runtime req) = Some (pat, cluster, ht, conf)"
    using Some p by simp
  have "(pat, cluster, ht, conf) \<in> set RUNTIME_PATTERNS"
    using fm by (rule first_match_mem)
  then have rows: "(cluster, ht, conf) \<in> {(''c_segfault'', ''runtime_memory'', 0.95),
        (''c_use_after_free'', ''memory'', 0.98), (''c_double_free'', ''memory'', 0.98),
        (''c_invalid_free'', ''memory'', 0.97), (''c_out_of_bounds'', ''bounds'', 0.94),
        (''c_null_dereference'', ''pointers'', 0.92)}"
    by (rule runtime_rows)
  show thesis
    using runtime [OF fm rows] by (simp add: analyze_runtime [OF fm] result_def)
next
  case None
  show thesis
  proof (cases "first_match COMPILE_PATTERNS (merged_compile req)")
    case n2: None
    show thesis using rest [OF None analyze_none [OF None n2]] .
  next
    case (Some p)
    obtain pat cluster ht conf where p: "p = (pat, cluster, ht, conf)"
      by (cases p) auto
    have fm: "first_match COMPILE_PATTERNS (merged_compile req) = Some (pat, cluster, ht, conf)"
      using Some p by simp
    have "(pat, cluster, ht, conf) \<in> set COMPILE_PATTERNS"
      using fm by (rule first_match_mem)
    then have rows: "(cluster, ht, conf) \<in> {(''c_undeclared_identifier'', ''compile_symbol'', 0.92),
        (''c_type_mismatch'', ''types'', 0.9), (''c_parameter_mismatch'', ''signature'', 0.9),
        (''c_prototype_conflict'', ''prototype'', 0.9),
        (''c_return_type_mismatch'', ''return_type'', 0.86),
        (''c_pointer_deref_misuse'', ''pointers'', 0.88),
        (''c_free_misuse_compile'', ''memory'', 0.76),
        (''c_warning_unused_variable'', ''warning_unused'', 0.55)}"
      by (rule compile_rows)
    show thesis
    proof (cases "cluster = ''c_warning_unused_variable'' \<and> 0.99 \<le> score_ratio (initial_signals req)")
      case True
      have "analyze req =
              analyze_rest ((initial_signals req)\<lparr>compile_patterns := [cluster]\<rparr>)
                (failed_join req)"
        unfolding analyze_compile [OF None fm] using True by (rule if_P)
      then show thesis
        by (rule rest [OF None])
    next
      case False
      have "analyze req =
              result cluster ht conf ((initial_signals req)\<lparr>compile_patterns := [cluster]\<rparr>)"
        unfolding analyze_compile [OF None fm] using False by (rule if_not_P)
      then show thesis
        using compile [OF None fm rows] by (simp add: result_def)
    qed
  qed
qed

text \<open>
  C10: for every request the result of \<open>analyze\<close> has language "c" and a confidence that
  is one of the priors of the rules, hence between 0.2 and 0.98; the confidence is 0.2
  exactly when the cluster is the terminal "c_no_hint_needed", and a confidence of 0.98
  comes from a runtime pattern of hint type "memory" (use after free or double free).
\<close>

theorem analyze_confidence:
  "ar_language (analyze req) = ''c''
   \<and> ar_confidence (analyze req)
       \<in> {0.95, 0.98, 0.97, 0.94, 0.92, 0.9, 0.86, 0.88, 0.76, 0.55, 0.8, 0.75, 0.79, 0.62,
          0.58, 0.45, 0.2}
   \<and> 0.2 \<le> ar_confidence (analyze req) \<and> ar_confidence (analyze req) \<le> 0.98
   \<and> (ar_confidence (analyze req) = 0.2 \<longleftrightarrow> ar_cluster_key (analyze req) = ''c_no_hint_needed'')
   \<and> (ar_confidence (analyze req) = 0.98 \<longrightarrow>
        first_match RUNTIME_PATTERNS (merged_runtime req) \<noteq> None
        \<and> ar_hint_type (analyze req) = ''memory''
        \<and> ar_cluster_key (analyze req) \<in> {''c_use_after_free'', ''c_double_free''})"
proof (cases rule: analyze_cases [of req])
  case (runtime pat cluster ht conf)
  then show ?thesis by auto
next
  case (compile pat cluster ht conf)
  then show ?thesis by auto
next
  case (rest sg)
  then show ?thesis
    using analyze_rest_rows [of sg "failed_join req"] by auto
qed


theorem analyze_confidence_witness:
  "ar_confidence (analyze req_uaf) = 0.98
   \<and> first_match RUNTIME_PATTERNS (merged_runtime req_uaf) \<noteq> None
   \<and> ar_hint_type (analyze req_uaf) = ''memory''
   \<and> ar_cluster_key (analyze (req_warn 0.99 1)) = ''c_no_hint_needed''
   \<and> ar_confidence (analyze (req_warn 0.99 1)) = 0.2"
proof -
  have c: "ar_confidence (analyze req_uaf) = 0.98"
    by code_simp
  have d: "ar_cluster_key (analyze (req_warn 0.99 1)) = ''c_no_hint_needed''"
    by code_simp
  show ?thesis
    using c d analyze_confidence [of req_uaf] analyze_confidence [of "req_warn 0.99 1"]
    by blast
qed

subsection \<open>Runtime patterns come first\<close>

lemma lit_rest_self: "lit_rest fl w (w @ b) = Some b"
  by (induction w) (auto simp add: chr_match_def)

lemma rmatch_Lit_self: "rmatch fl (Lit w) (w @ b) \<noteq> []"
  by (simp add: lit_rest_self)

lemma re_search_here: "rmatch fl r t \<noteq> [] \<Longrightarrow> re_search fl r t"
  by (cases t) auto

lemma re_search_append: "rmatch fl r t \<noteq> [] \<Longrightarrow> re_search fl r (a @ t)"
  by (induction a) (auto simp add: re_search_here)

lemma re_search_Alt: "re_search fl (Alt x y) s \<longleftrightarrow> re_search fl x s \<or> re_search fl y s"
  by (induction s) auto

lemma startswith_split: "startswith s w \<Longrightarrow> \<exists>b. s = w @ b"
  by (induction s w rule: startswith.induct) auto

lemma contains_split: "contains w s \<Longrightarrow> \<exists>a b. s = a @ w @ b"
proof (induction s)
  case Nil
  then show ?case by simp
next
  case (Cons c cs)
  show ?case
  proof (cases "startswith (c # cs) w")
    case True
    then obtain b where "c # cs = w @ b"
      using startswith_split by blast
    then have "c # cs = [] @ w @ b" by simp
    then show ?thesis by blast
  next
    case False
    then have "contains w cs" using Cons.prems by simp
    then obtain a b where "cs = a @ w @ b" using Cons.IH by blast
    then have "c # cs = (c # a) @ w @ b" by simp
    then show ?thesis by blast
  qed
qed

lemma lower_append: "lower (a @ b) = lower a @ lower b"
  by (simp add: lower_def)

lemma lower_uaf: "lower ''heap-use-after-free'' = ''heap-'' @ ''use-after-free''"
  by (simp add: lower_def lower_char_def)

lemma uaf_found:
  assumes "contains ''heap-use-after-free'' (runtime_error_text (coderunner req))"
  shows "re_search flags_IS (Lit ''use-after-free'') (merged_runtime req)"
proof -
  obtain a b where ab: "runtime_error_text (coderunner req) = a @ ''heap-use-after-free'' @ b"
    using contains_split [OF assms] by blast
  have m: "merged_runtime req =
          (lower a @ ''heap-'') @ (''use-after-free'' @
             lower (b @ [CHR 0x0A] @ full_feedback_text (coderunner req)))"
    unfolding merged_runtime_def ab lower_append lower_uaf by simp
  show ?thesis
    unfolding m by (rule re_search_append [OF rmatch_Lit_self])
qed

lemma first_match_uaf:
  assumes "\<not> re_search flags_IS (alts [Lit ''segmentation fault'', Lit ''sigsegv'']) t"
    and "re_search flags_IS (Lit ''use-after-free'') t"
  shows "\<exists>pat. first_match RUNTIME_PATTERNS t = Some (pat, ''c_use_after_free'', ''memory'', 0.98)"
  using assms by (simp add: first_match_def RUNTIME_PATTERNS_def re_search_Alt)

text \<open>
  C1, as stated: runtime text that contains "heap-use-after-free", with compile text that
  contains "undeclared", gives cluster "c_use_after_free" with confidence 0.98. It fails
  when the runtime text also matches the segmentation-fault pattern, which stands earlier in
  the table: the use-after-free pattern matches, and the result is "c_segfault" with
  confidence 0.95.
\<close>

theorem runtime_first_match_counterexample:
  "contains ''heap-use-after-free'' (runtime_error_text (coderunner req_both))
   \<and> contains ''undeclared'' (compile_error_text (coderunner req_both))
   \<and> re_search flags_IS (fst (RUNTIME_PATTERNS ! 1)) (merged_runtime req_both)
   \<and> fst (snd (RUNTIME_PATTERNS ! 1)) = ''c_use_after_free''
   \<and> ar_cluster_key (analyze req_both) = ''c_segfault''
   \<and> ar_confidence (analyze req_both) = 0.95"
  by code_simp

text \<open>
  C1, amended: if a runtime pattern matches the merged runtime text, \<open>analyze\<close> returns the
  cluster, hint type and confidence of the first runtime pattern in table order that
  matches, whatever the compile text matches; in particular runtime text that contains
  "heap-use-after-free", when the merged runtime text does not match the segmentation-fault
  pattern, gives "c_use_after_free" with confidence 0.98.
\<close>

theorem runtime_precedence:
  "(\<forall>pat cluster ht conf.
       first_match RUNTIME_PATTERNS (merged_runtime req) = Some (pat, cluster, ht, conf) \<longrightarrow>
         ar_cluster_key (analyze req) = cluster \<and> ar_hint_type (analyze req) = ht
         \<and> ar_confidence (analyze req) = conf)
   \<and> ((\<exists>p \<in> set RUNTIME_PATTERNS. re_search flags_IS (fst p) (merged_runtime req)) \<longrightarrow>
        first_match RUNTIME_PATTERNS (merged_runtime req) \<noteq> None)
   \<and> (contains ''heap-use-after-free'' (runtime_error_text (coderunner req))
       \<and> \<not> re_search flags_IS (alts [Lit ''segmentation fault'', Lit ''sigsegv''])
             (merged_runtime req) \<longrightarrow>
        ar_cluster_key (analyze req) = ''c_use_after_free''
        \<and> ar_confidence (analyze req) = 0.98)"
proof (intro conjI allI impI)
  fix pat cluster ht conf
  assume fm: "first_match RUNTIME_PATTERNS (merged_runtime req) = Some (pat, cluster, ht, conf)"
  show "ar_cluster_key (analyze req) = cluster" "ar_hint_type (analyze req) = ht"
    "ar_confidence (analyze req) = conf"
    by (simp_all add: analyze_runtime [OF fm] result_def)
next
  assume "\<exists>p \<in> set RUNTIME_PATTERNS. re_search flags_IS (fst p) (merged_runtime req)"
  then show "first_match RUNTIME_PATTERNS (merged_runtime req) \<noteq> None"
    by (simp add: first_match_None)
next
  assume h: "contains ''heap-use-after-free'' (runtime_error_text (coderunner req))
       \<and> \<not> re_search flags_IS (alts [Lit ''segmentation fault'', Lit ''sigsegv''])
             (merged_runtime req)"
  then obtain pat where
    fm: "first_match RUNTIME_PATTERNS (merged_runtime req)
           = Some (pat, ''c_use_after_free'', ''memory'', 0.98)"
    using first_match_uaf uaf_found by blast
  show "ar_cluster_key (analyze req) = ''c_use_after_free''"
    "ar_confidence (analyze req) = 0.98"
    by (simp_all add: analyze_runtime [OF fm] result_def)
qed

theorem runtime_precedence_witness:
  "contains ''heap-use-after-free'' (runtime_error_text (coderunner req_uaf))
   \<and> contains ''undeclared'' (compile_error_text (coderunner req_uaf))
   \<and> first_match COMPILE_PATTERNS (merged_compile req_uaf) \<noteq> None
   \<and> \<not> re_search flags_IS (alts [Lit ''segmentation fault'', Lit ''sigsegv''])
         (merged_runtime req_uaf)
   \<and> ar_cluster_key (analyze req_uaf) = ''c_use_after_free''
   \<and> ar_confidence (analyze req_uaf) = 0.98"
proof -
  have a: "contains ''heap-use-after-free'' (runtime_error_text (coderunner req_uaf))"
    by code_simp
  have b: "\<not> re_search flags_IS (alts [Lit ''segmentation fault'', Lit ''sigsegv''])
         (merged_runtime req_uaf)"
    by code_simp
  have c: "contains ''undeclared'' (compile_error_text (coderunner req_uaf))"
    by code_simp
  have d: "first_match COMPILE_PATTERNS (merged_compile req_uaf) \<noteq> None"
    by code_simp
  show ?thesis
    using a b c d runtime_precedence [of req_uaf] by blast
qed

subsection \<open>The unused-variable warning\<close>








section \<open>Hint text resolution\<close>

lemma text_at_Nil: "text_at [] l = []"
  by (simp add: text_at_def coalesce_def)

lemma search_down_None:
  "search_down c n = None \<longleftrightarrow> (\<forall>l. 1 \<le> l \<and> l \<le> n \<longrightarrow> text_at c l = [])"
proof (induction c n rule: search_down.induct)
  case (1 chosen level)
  show ?case
  proof (cases "level \<le> 0")
    case True
    then have "\<forall>l. 1 \<le> l \<and> l \<le> level \<longrightarrow> text_at chosen l = []" by auto
    then show ?thesis using True by (simp add: search_down.simps [of chosen level])
  next
    case pos: False
    show ?thesis
    proof (cases "text_at chosen level \<noteq> []")
      case True
      have "1 \<le> level \<and> level \<le> level" using pos by simp
      then have "\<not> (\<forall>l. 1 \<le> l \<and> l \<le> level \<longrightarrow> text_at chosen l = [])"
        using True by blast
      then show ?thesis
        using pos True by (simp add: search_down.simps [of chosen level])
    next
      case False
      have "(\<forall>l. 1 \<le> l \<and> l \<le> level \<longrightarrow> text_at chosen l = [])
              = (\<forall>l. 1 \<le> l \<and> l \<le> level - 1 \<longrightarrow> text_at chosen l = [])"
      proof
        assume "\<forall>l. 1 \<le> l \<and> l \<le> level \<longrightarrow> text_at chosen l = []"
        then show "\<forall>l. 1 \<le> l \<and> l \<le> level - 1 \<longrightarrow> text_at chosen l = []" by simp
      next
        assume h: "\<forall>l. 1 \<le> l \<and> l \<le> level - 1 \<longrightarrow> text_at chosen l = []"
        show "\<forall>l. 1 \<le> l \<and> l \<le> level \<longrightarrow> text_at chosen l = []"
        proof (intro allI impI)
          fix l assume "1 \<le> l \<and> l \<le> level"
          then have "l = level \<or> (1 \<le> l \<and> l \<le> level - 1)" by arith
          then show "text_at chosen l = []" using False h by blast
        qed
      qed
      then show ?thesis
        using "1.IH" [OF pos] False pos by (simp add: search_down.simps [of chosen level])
    qed
  qed
qed

lemma search_down_first:
  "1 \<le> l \<Longrightarrow> l \<le> n \<Longrightarrow> text_at c l \<noteq> [] \<Longrightarrow>
   (\<forall>k. l < k \<and> k \<le> n \<longrightarrow> text_at c k = []) \<Longrightarrow> search_down c n = Some (text_at c l)"
proof (induction c n rule: search_down.induct)
  case (1 chosen level)
  have pos: "\<not> level \<le> 0" using "1.prems" by simp
  show ?case
  proof (cases "l = level")
    case True
    then show ?thesis using "1.prems" pos by (simp add: search_down.simps [of chosen level])
  next
    case False
    then have lt: "l < level" using "1.prems" by simp
    then have empty: "\<not> text_at chosen level \<noteq> []" using "1.prems" by simp
    have "search_down chosen (level - 1) = Some (text_at chosen l)"
      using "1.IH" [OF pos empty] "1.prems" lt by simp
    then show ?thesis using pos empty by (simp add: search_down.simps [of chosen level])
  qed
qed

lemma search_down_nonempty: "search_down c n = Some t \<Longrightarrow> t \<noteq> []"
proof (induction c n rule: search_down.induct)
  case (1 chosen level)
  then show ?case
    by (simp add: search_down.simps [of chosen level] split: if_splits)
qed

lemma FALLBACK_TEXT_nonempty: "FALLBACK_TEXT \<noteq> []"
  by (simp add: FALLBACK_TEXT_def)

lemma resolve_nonempty: "resolve_hint_text cat ck level variant \<noteq> []"
  by (auto simp add: resolve_hint_text_def Let_def FALLBACK_TEXT_nonempty
      dest: search_down_nonempty split: option.splits)

lemma chosen_texts_empty_catalog: "chosen_texts [] ck variant = []"
  by (simp add: chosen_texts_def coalesce_def or_else_def)

text \<open>
  C6: for every catalog, the empty one included, and every cluster key, level and variant
  name, \<open>resolve_hint_text\<close> returns a text that is not empty. With the texts of the chosen
  variant (the named variant when the cluster's entry has it with texts), it returns the text
  at the requested level when there is one, else the text at the first level with a text going
  down from the requested level to 1, else the fixed fallback text; on the empty catalog it
  returns the fallback text.
\<close>

theorem resolve_hint_text_total:
  "resolve_hint_text cat ck level variant \<noteq> []
   \<and> (text_at (chosen_texts cat ck variant) level \<noteq> [] \<longrightarrow>
        resolve_hint_text cat ck level variant = text_at (chosen_texts cat ck variant) level)
   \<and> (\<forall>l. 1 \<le> l \<and> l \<le> level \<and> text_at (chosen_texts cat ck variant) l \<noteq> []
          \<and> (\<forall>k. l < k \<and> k \<le> level \<longrightarrow> text_at (chosen_texts cat ck variant) k = []) \<longrightarrow>
        resolve_hint_text cat ck level variant = text_at (chosen_texts cat ck variant) l)
   \<and> (text_at (chosen_texts cat ck variant) level = []
       \<and> (\<forall>l. 1 \<le> l \<and> l \<le> level \<longrightarrow> text_at (chosen_texts cat ck variant) l = []) \<longrightarrow>
        resolve_hint_text cat ck level variant = FALLBACK_TEXT)
   \<and> (\<forall>e vs c. map_of cat ck = Some e \<and> map_of e ''variants'' = Some vs
          \<and> map_of vs variant = Some c \<and> c \<noteq> [] \<longrightarrow> chosen_texts cat ck variant = c)
   \<and> resolve_hint_text [] ck level variant = FALLBACK_TEXT"
proof -
  let ?c = "chosen_texts cat ck variant"
  have exact: "resolve_hint_text cat ck level variant = text_at ?c level"
    if "text_at ?c level \<noteq> []"
  proof -
    have "?c \<noteq> []" using that text_at_Nil by auto
    then show ?thesis using that by (simp add: resolve_hint_text_def Let_def)
  qed
  have down: "resolve_hint_text cat ck level variant = text_at ?c l"
    if "1 \<le> l" "l \<le> level" "text_at ?c l \<noteq> []"
      "\<forall>k. l < k \<and> k \<le> level \<longrightarrow> text_at ?c k = []" for l
  proof (cases "text_at ?c level \<noteq> []")
    case True
    then have "l = level" using that by force
    then show ?thesis using exact [OF True] by simp
  next
    case False
    have ne: "?c \<noteq> []" using that text_at_Nil by auto
    have "search_down ?c level = Some (text_at ?c l)"
      using that by (intro search_down_first) auto
    then show ?thesis using False ne by (simp add: resolve_hint_text_def Let_def)
  qed
  have none: "resolve_hint_text cat ck level variant = FALLBACK_TEXT"
    if "text_at ?c level = []" "\<forall>l. 1 \<le> l \<and> l \<le> level \<longrightarrow> text_at ?c l = []"
  proof -
    have "search_down ?c level = None" using that search_down_None by blast
    then show ?thesis using that by (simp add: resolve_hint_text_def Let_def)
  qed
  have variant: "chosen_texts cat ck variant = c"
    if "map_of cat ck = Some e" "map_of e ''variants'' = Some vs" "map_of vs variant = Some c"
      "c \<noteq> []" for e vs c
    using that by (simp add: chosen_texts_def coalesce_def or_else_def)
  have empty: "resolve_hint_text [] ck level variant = FALLBACK_TEXT"
    by (simp add: resolve_hint_text_def chosen_texts_empty_catalog)
  show ?thesis
    using resolve_nonempty exact down none variant empty by blast
qed

theorem resolve_hint_text_total_witness:
  "map_of cat2 ''c_segfault'' = Some (snd (hd cat2))
   \<and> chosen_texts cat2 ''c_segfault'' ''A''
       = [(''1'', ''Which pointer is read?''), (''2'', ''Check the index before the read.'')]
   \<and> text_at (chosen_texts cat2 ''c_segfault'' ''A'') 2 \<noteq> []
   \<and> text_at (chosen_texts cat2 ''c_segfault'' ''A'') 3 = []
   \<and> resolve_hint_text cat2 ''c_segfault'' 3 ''A'' = ''Check the index before the read.''
   \<and> resolve_hint_text cat2 ''c_segfault'' 2 ''A'' = ''Check the index before the read.''"
proof -
  have a: "map_of cat2 ''c_segfault'' = Some (snd (hd cat2))" by code_simp
  have b: "chosen_texts cat2 ''c_segfault'' ''A''
       = [(''1'', ''Which pointer is read?''), (''2'', ''Check the index before the read.'')]"
    by code_simp
  have t2: "text_at (chosen_texts cat2 ''c_segfault'' ''A'') 2 = ''Check the index before the read.''"
    by code_simp
  have t3: "text_at (chosen_texts cat2 ''c_segfault'' ''A'') 3 = []"
    by code_simp
  have k: "\<forall>k. 2 < k \<and> k \<le> (3::int) \<longrightarrow> text_at (chosen_texts cat2 ''c_segfault'' ''A'') k = []"
  proof (intro allI impI)
    fix k :: int assume "2 < k \<and> k \<le> 3"
    then have "k = 3" by arith
    then show "text_at (chosen_texts cat2 ''c_segfault'' ''A'') k = []" using t3 by simp
  qed
  have ne: "text_at (chosen_texts cat2 ''c_segfault'' ''A'') 2 \<noteq> []" using t2 by simp
  note th3 = resolve_hint_text_total [of cat2 "''c_segfault''" 3 "''A''"]
  note th2 = resolve_hint_text_total [of cat2 "''c_segfault''" 2 "''A''"]
  have r3: "resolve_hint_text cat2 ''c_segfault'' 3 ''A'' = text_at (chosen_texts cat2 ''c_segfault'' ''A'') 2"
    using th3 ne k by force
  have r2: "resolve_hint_text cat2 ''c_segfault'' 2 ''A'' = text_at (chosen_texts cat2 ''c_segfault'' ''A'') 2"
    using th2 ne by blast
  show ?thesis
    using a b ne t3 r3 r2 t2 by simp
qed

section \<open>Exploitation in variant selection\<close>










text \<open>The store keeps one statistics row per key: a bump never adds a second one.\<close>

lemma has_key_stat_key: "has_key lang ck level v r \<longleftrightarrow> stat_key r = (lang, ck, level, v)"
  by (auto simp add: has_key_def stat_key_def)

lemma bump_keeps_one_row_per_key:
  assumes "distinct (map stat_key (hint_stats st))"
  shows "distinct (map stat_key (hint_stats (bump_hint_stats lang ck level v e i d st)))"
proof (cases "list_ex (has_key lang ck level v) (hint_stats st)")
  case True
  let ?upd = "\<lambda>r. if has_key lang ck level v r
                          then r\<lparr>exposures := exposures r + e,
                                 improvements := improvements r + i,
                                 total_delta := total_delta r + d\<rparr>
                          else r"
  have k: "stat_key (?upd r) = stat_key r" for r
    by (simp add: stat_key_def)
  have same: "map stat_key (map ?upd (hint_stats st)) = map stat_key (hint_stats st)"
    unfolding map_map comp_def k ..
  have hs: "hint_stats (bump_hint_stats lang ck level v e i d st) = map ?upd (hint_stats st)"
    using True by (simp add: bump_hint_stats_def)
  show ?thesis
    unfolding hs same by (rule assms)
next
  case False
  then have "(lang, ck, level, v) \<notin> set (map stat_key (hint_stats st))"
    by (auto simp add: list_ex_iff has_key_stat_key)
  then show ?thesis
    using False assms by (simp add: bump_hint_stats_def stat_key_def)
qed




section \<open>The handler on a training request\<close>







lemma load_catalog_frame:
  "attempts (snd (load_catalog ev lang st)) = attempts st"
  "hint_stats (snd (load_catalog ev lang st)) = hint_stats st"
  "calls (snd (load_catalog ev lang st)) = calls st"
  by (simp_all add: load_catalog_def split: option.splits)

lemma choose_variant_frame:
  "attempts (snd (choose_variant g lang ck level cat st)) = attempts st"
  "hint_stats (snd (choose_variant g lang ck level cat st)) = hint_stats st"
  "calls (snd (choose_variant g lang ck level cat st)) = calls st
   \<or> calls (snd (choose_variant g lang ck level cat st)) = calls st @ [Get_hint_stats lang ck level]"
  by (simp_all add: choose_variant_def Let_def get_hint_stats_def)

lemma bump_frame:
  "attempts (bump_hint_stats lang ck level v e i d st) = attempts st"
  "calls (bump_hint_stats lang ck level v e i d st) = calls st @ [Bump_hint_stats lang ck level v e i d]"
  by (simp_all add: bump_hint_stats_def)

lemma insert_frame:
  "attempts (snd (insert_attempt row st)) = attempts st @ [row\<lparr>att_id := last_rowid (attempts st) + 1\<rparr>]"
  "calls (snd (insert_attempt row st))
     = calls st @ [Insert_attempt (row\<lparr>att_id := last_rowid (attempts st) + 1\<rparr>)]"
  by (simp_all add: insert_attempt_def Let_def)


lemma record_feedback_calls:
  "\<exists>mid. calls (snd (record_feedback req previous st)) = calls st @ mid
      \<and> list_all (\<lambda>c. \<not> is_insert c \<and> \<not> is_exposure_bump c) mid"
proof (cases previous)
  case None
  then show ?thesis by (simp add: record_feedback_def)
next
  case (Some p)
  show ?thesis
  proof (cases "truthy_str (att_hint_variant p) \<and> truthy_int (att_hint_level p)")
    case True
    then show ?thesis
      using Some
      by (simp add: record_feedback_def Let_def update_attempt_improvement_def
          bump_hint_stats_def is_insert_def is_exposure_bump_def)
  next
    case False
    then have "record_feedback req previous st = (None, st)"
      using Some by (auto simp add: record_feedback_def)
    then show ?thesis by simp
  qed
qed



text \<open>The handler on a training request for C, stage by stage.\<close>

lemma handle_hint_training:
  assumes "mode req = ''training''" and "lower (or_else (Some (language req)) ''c'') = ''c''"
  shows "handle_hint ev g req st =
     (let analysis = analyze req;
          previous = fst (get_last_attempt_for_context (student_id req) ''c'' (quiz_id req)
                            (question_id req) (question_slot req) st);
          st1 = st\<lparr>calls := calls st @ [Analyze,
                   Get_last_attempt_for_context (student_id req) ''c'' (quiz_id req)
                     (question_id req) (question_slot req)]\<rparr>;
          fb = record_feedback req previous st1;
          level = decide_level previous;
          lc = load_catalog ev ''c'' (snd fb);
          cv = choose_variant g ''c'' (ar_cluster_key analysis) level (fst lc) (snd lc);
          txt = resolve_hint_text (fst lc) (ar_cluster_key analysis) level (fst cv);
          st5 = bump_hint_stats ''c'' (ar_cluster_key analysis) level (fst cv) 1 0 0 (snd cv)
      in (\<lparr>enabled = True, hint_level = level, hint_type = ar_hint_type analysis,
            cluster_key = ar_cluster_key analysis, hint_text = txt,
            confidence = py_round (ar_confidence analysis) 3, hint_variant = fst cv,
            learning = fst fb\<rparr>,
          snd (insert_attempt (new_attempt ev req ''c'' analysis level (fst cv) txt) st5)))"
  using assms
  by (simp add: handle_hint_def Let_def get_last_attempt_for_context_def case_prod_beta)

subsection \<open>Feedback on the previous hint\<close>




subsection \<open>The order of the store calls\<close>

lemma happens_before_yes:
  assumes "list_all (\<lambda>c. \<not> P c) mid" and "P b" and "Q i"
  shows "happens_before P Q (mid @ [b, i])"
proof -
  have "dropWhile (\<lambda>c. \<not> P c) (mid @ [b, i]) = dropWhile (\<lambda>c. \<not> P c) [b, i]"
    using assms(1) by (intro dropWhile_append2) (simp add: list_all_iff)
  then show ?thesis
    using assms(2,3) by (simp add: happens_before_def)
qed

lemma happens_before_no:
  assumes "list_all (\<lambda>c. \<not> P c) mid" and "\<not> P b"
  shows "\<not> happens_before P Q (mid @ [b, i])"
proof -
  have "dropWhile (\<lambda>c. \<not> P c) (mid @ [b, i]) = dropWhile (\<lambda>c. \<not> P c) [b, i]"
    using assms(1) by (intro dropWhile_append2) (simp add: list_all_iff)
  then show ?thesis
    using assms(2) by (simp add: happens_before_def)
qed

text \<open>
  C9, as stated: the new attempt is inserted before the exposure statistic of the selected
  (language, cluster, level, variant) is bumped. It fails on the first request of a context:
  the calls are the analysis, the read of the previous attempt, the exposure bump and then the
  insert.
\<close>

theorem insert_before_bump_counterexample:
  "mode req0 = ''training'' \<and> lower (or_else (Some (language req0)) ''c'') = ''c''
   \<and> new_calls st0 (snd (handle_hint ev0 g0 req0 st0))
       = [Analyze, Get_last_attempt_for_context ''anon'' ''c'' 0 0 0,
          Bump_hint_stats ''c'' ''c_logic_generic_failed_tests'' 1 ''default'' 1 0 0,
          Insert_attempt (att0\<lparr>att_id := 1\<rparr>)]
   \<and> \<not> happens_before is_insert is_exposure_bump
         (new_calls st0 (snd (handle_hint ev0 g0 req0 st0)))"
  by code_simp

text \<open>
  C9, amended: on every training request for C, the exposure statistic of the selected
  (language, cluster, level, variant) is bumped before the new attempt is inserted: the two
  calls are the last two of the request, in this order, and no other insert or exposure bump
  comes before them.
\<close>

theorem exposure_bump_then_insert:
  assumes "mode req = ''training''"
    and "lower (or_else (Some (language req)) ''c'') = ''c''"
  shows "(\<exists>mid row.
            calls (snd (handle_hint ev g req st))
              = calls st @ mid
                @ [Bump_hint_stats ''c'' (cluster_key (fst (handle_hint ev g req st)))
                     (hint_level (fst (handle_hint ev g req st)))
                     (hint_variant (fst (handle_hint ev g req st))) 1 0 0,
                   Insert_attempt row]
            \<and> list_all (\<lambda>c. \<not> is_insert c \<and> \<not> is_exposure_bump c) mid
            \<and> row \<in> set (attempts (snd (handle_hint ev g req st)))
            \<and> att_cluster_key row = Some (cluster_key (fst (handle_hint ev g req st)))
            \<and> att_hint_level row = Some (hint_level (fst (handle_hint ev g req st)))
            \<and> att_hint_variant row = Some (hint_variant (fst (handle_hint ev g req st))))
     \<and> happens_before is_exposure_bump is_insert
          (new_calls st (snd (handle_hint ev g req st)))
     \<and> \<not> happens_before is_insert is_exposure_bump
          (new_calls st (snd (handle_hint ev g req st)))"
proof -
  let ?prev = "fst (get_last_attempt_for_context (student_id req) ''c'' (quiz_id req)
                            (question_id req) (question_slot req) st)"
  let ?st1 = "st\<lparr>calls := calls st @ [Analyze,
                   Get_last_attempt_for_context (student_id req) ''c'' (quiz_id req)
                     (question_id req) (question_slot req)]\<rparr>"
  let ?fb = "record_feedback req ?prev ?st1"
  let ?level = "decide_level ?prev"
  let ?lc = "load_catalog ev ''c'' (snd ?fb)"
  let ?ck = "ar_cluster_key (analyze req)"
  let ?cv = "choose_variant g ''c'' ?ck ?level (fst ?lc) (snd ?lc)"
  let ?txt = "resolve_hint_text (fst ?lc) ?ck ?level (fst ?cv)"
  let ?row = "(new_attempt ev req ''c'' (analyze req) ?level (fst ?cv) ?txt)
                \<lparr>att_id := last_rowid (attempts (snd ?cv)) + 1\<rparr>"
  let ?bump = "Bump_hint_stats ''c'' ?ck ?level (fst ?cv) 1 0 0"
  let ?res = "handle_hint ev g req st"
  note hh = handle_hint_training [OF assms, of ev g st]
  have resp: "cluster_key (fst ?res) = ?ck" "hint_level (fst ?res) = ?level"
    "hint_variant (fst ?res) = fst ?cv"
    by (simp_all add: hh Let_def)
  have calls_end: "calls (snd ?res) = calls (snd ?cv) @ [?bump, Insert_attempt ?row]"
    by (simp add: hh Let_def insert_frame bump_frame)
  have atts_end: "attempts (snd ?res) = attempts (snd ?cv) @ [?row]"
    by (simp add: hh Let_def insert_frame bump_frame)
  obtain m1 where m1: "calls (snd ?fb) = calls ?st1 @ m1"
      "list_all (\<lambda>c. \<not> is_insert c \<and> \<not> is_exposure_bump c) m1"
    using record_feedback_calls by blast
  obtain m2 where m2: "calls (snd ?cv) = calls (snd ?lc) @ m2"
      "list_all (\<lambda>c. \<not> is_insert c \<and> \<not> is_exposure_bump c) m2"
  proof -
    have "calls (snd ?cv) = calls (snd ?lc) @ []
        \<or> calls (snd ?cv) = calls (snd ?lc) @ [Get_hint_stats ''c'' ?ck ?level]"
      using choose_variant_frame(3) [of g "''c''" ?ck ?level "fst ?lc" "snd ?lc"] by simp
    then show ?thesis
      using that [of "[]"] that [of "[Get_hint_stats ''c'' ?ck ?level]"]
      by (auto simp add: is_insert_def is_exposure_bump_def)
  qed
  let ?mid = "[Analyze, Get_last_attempt_for_context (student_id req) ''c'' (quiz_id req)
                     (question_id req) (question_slot req)] @ m1 @ m2"
  have mid_ok: "list_all (\<lambda>c. \<not> is_insert c \<and> \<not> is_exposure_bump c) ?mid"
    using m1(2) m2(2) by (simp add: is_insert_def is_exposure_bump_def)
  have calls_eq: "calls (snd ?res) = calls st @ ?mid @ [?bump, Insert_attempt ?row]"
    using calls_end m1(1) m2(1) by (simp add: load_catalog_frame)
  have row_in: "?row \<in> set (attempts (snd ?res))"
    using atts_end by simp
  have row_fields: "att_cluster_key ?row = Some ?ck" "att_hint_level ?row = Some ?level"
    "att_hint_variant ?row = Some (fst ?cv)"
    by (simp_all add: new_attempt_def)
  have shape: "\<exists>mid row.
            calls (snd ?res) = calls st @ mid @ [?bump, Insert_attempt row]
            \<and> list_all (\<lambda>c. \<not> is_insert c \<and> \<not> is_exposure_bump c) mid
            \<and> row \<in> set (attempts (snd ?res))
            \<and> att_cluster_key row = Some ?ck \<and> att_hint_level row = Some ?level
            \<and> att_hint_variant row = Some (fst ?cv)"
    using calls_eq mid_ok row_in row_fields by blast
  have new: "new_calls st (snd ?res) = ?mid @ [?bump, Insert_attempt ?row]"
    unfolding new_calls_def calls_eq by simp
  have no_bump: "list_all (\<lambda>c. \<not> is_exposure_bump c) ?mid"
    using mid_ok by (simp add: list_all_iff)
  have no_ins: "list_all (\<lambda>c. \<not> is_insert c) ?mid"
    using mid_ok by (simp add: list_all_iff)
  have yes: "happens_before is_exposure_bump is_insert (new_calls st (snd ?res))"
    unfolding new
    by (rule happens_before_yes [OF no_bump]) (simp_all add: is_insert_def is_exposure_bump_def)
  have no: "\<not> happens_before is_insert is_exposure_bump (new_calls st (snd ?res))"
    unfolding new
    by (rule happens_before_no [OF no_ins]) (simp add: is_insert_def)
  show ?thesis
    using shape yes no unfolding resp by blast
qed

theorem exposure_bump_then_insert_witness:
  "mode req0 = ''training'' \<and> lower (or_else (Some (language req0)) ''c'') = ''c''
   \<and> happens_before is_exposure_bump is_insert (new_calls st0 (snd (handle_hint ev0 g0 req0 st0)))
   \<and> \<not> happens_before is_insert is_exposure_bump
         (new_calls st0 (snd (handle_hint ev0 g0 req0 st0)))"
proof -
  have a: "mode req0 = ''training''" by code_simp
  have b: "lower (or_else (Some (language req0)) ''c'') = ''c''" by code_simp
  show ?thesis
    using a b exposure_bump_then_insert [OF a b, of ev0 g0 st0] by blast
qed

end
